theory Spec2Isabelle
  imports Complex_Main
begin

section \<open>Data model\<close>

text \<open>
  The entities of \<^verbatim>\<open>src/common/entities\<close> and the enum of
  \<^verbatim>\<open>src/common/enums/scheduler-status.enum.ts\<close>.

  A \<^verbatim>\<open>Date\<close> is its number of milliseconds since the epoch. The tables store a date
  as its \<^verbatim>\<open>toISOString()\<close> text and DynamoDB compares these texts as strings; for
  the fixed-width ISO form this is the order of the instants, so the stored attribute is
  modelled by the same integer. An optional field (\<^verbatim>\<open>?:\<close>) is an \<open>option\<close>: \<open>None\<close> is
  \<^verbatim>\<open>undefined\<close>, that is, the attribute is absent from the stored item.
  \<^verbatim>\<open>execution_time_ms\<close> is a whole, non-negative number of milliseconds
  (\<^verbatim>\<open>@IsNumber() @Min(0)\<close> in the request object). The timeout
  \<^verbatim>\<open>timeoutMinutes\<close> is a \<^verbatim>\<open>number\<close> that need not be whole: it is a rational, and
  the arithmetic on it is exact.
\<close>

datatype SchedulerStatus = PENDING | RUNNING | COMPLETED | FAILED

type_synonym Date = int

type_synonym SchedulerMetadata = "(string \<times> string) list"

record Scheduler =
  scheduler_id :: string
  service_name :: string
  job_name :: string
  status :: SchedulerStatus
  timestamp :: Date
  execution_time_ms :: "nat option"
  error_message :: "string option"
  metadata :: "SchedulerMetadata option"
  last_heartbeat :: "Date option"
  created_at :: Date
  updated_at :: Date
  owner_email :: "string option"
  alert_user_id :: "string option"

record StatusHistory =
  h_id :: string
  h_scheduler_id :: string
  h_status :: SchedulerStatus
  h_timestamp :: Date
  h_execution_time_ms :: "nat option"
  h_error_message :: "string option"
  h_metadata :: "SchedulerMetadata option"

datatype error = NotFound string | DeliveryFailure | StoreFailure

subsection \<open>Entity methods (\<^verbatim>\<open>scheduler.entity.ts\<close>)\<close>

text \<open>\<^verbatim>\<open>isStale\<close> reads the clock; the instant it reads is the argument \<open>now\<close>.\<close>

definition isStale :: "Date \<Rightarrow> Scheduler \<Rightarrow> rat \<Rightarrow> bool" where
  "isStale now s timeoutMinutes =
     (case last_heartbeat s of
        None \<Rightarrow> False
      | Some hb \<Rightarrow> (let diff = now - hb in of_int diff > timeoutMinutes * 60 * 1000))"

definition isPending :: "Scheduler \<Rightarrow> bool" where
  "isPending s = (status s = PENDING)"

definition isRunning :: "Scheduler \<Rightarrow> bool" where
  "isRunning s = (status s = RUNNING)"

definition isCompleted :: "Scheduler \<Rightarrow> bool" where
  "isCompleted s = (status s = COMPLETED)"

definition isFailed :: "Scheduler \<Rightarrow> bool" where
  "isFailed s = (status s = FAILED)"

section \<open>The scheduler table (\<^verbatim>\<open>dynamodb-scheduler.repository.ts\<close>)\<close>

text \<open>
  The table \<^verbatim>\<open>schedulers\<close> has the primary key \<^verbatim>\<open>scheduler_id\<close>; it is the list of
  its items, in the order a scan returns them. \<^verbatim>\<open>mapToEntity\<close> rebuilds the entity
  from the attributes field by field and is the identity on this representation.
\<close>

definition findById :: "Scheduler list \<Rightarrow> string \<Rightarrow> Scheduler option" where
  "findById tbl schedulerId = find (\<lambda>item. scheduler_id item = schedulerId) tbl"

definition findAll :: "Scheduler list \<Rightarrow> Scheduler list" where
  "findAll tbl = tbl"

subsection \<open>Local time of a date\<close>

text \<open>
  \<^verbatim>\<open>Date.prototype.getMinutes\<close> and \<^verbatim>\<open>setMinutes\<close> work on the local time of the
  process, as ECMAScript defines them. The zone of the process is its environment (the
  repository does not set it): \<open>tzaUtc z t\<close> is the offset of local time from UTC, in
  milliseconds, at the instant \<open>t\<close>, and \<open>tzaLocal z t\<close> the offset for the local time
  value \<open>t\<close>, which for a local time that a transition repeats or skips is the offset
  before the transition. \<open>LocalTime\<close> and \<open>UTC\<close> convert with them.
\<close>

record TimeZone =
  tzaUtc :: "int \<Rightarrow> int"
  tzaLocal :: "int \<Rightarrow> int"

definition LocalTime :: "TimeZone \<Rightarrow> Date \<Rightarrow> int" where
  "LocalTime z t = t + tzaUtc z t"

definition UTC :: "TimeZone \<Rightarrow> int \<Rightarrow> Date" where
  "UTC z t = t - tzaLocal z t"

definition Day :: "int \<Rightarrow> int" where
  "Day t = t div 86400000"

definition HourFromTime :: "int \<Rightarrow> int" where
  "HourFromTime t = (t div 3600000) mod 24"

definition MinFromTime :: "int \<Rightarrow> int" where
  "MinFromTime t = (t div 60000) mod 60"

definition SecFromTime :: "int \<Rightarrow> int" where
  "SecFromTime t = (t div 1000) mod 60"

definition msFromTime :: "int \<Rightarrow> int" where
  "msFromTime t = t mod 1000"

text \<open>
  \<^verbatim>\<open>ToIntegerOrInfinity\<close> of a finite number drops its fraction, rounding towards
  zero. \<open>MakeTime\<close> applies it to the minutes it is given; the hour, second and
  millisecond it is given here are whole already.
\<close>

definition ToIntegerOrInfinity :: "rat \<Rightarrow> int" where
  "ToIntegerOrInfinity x = (if 0 \<le> x then \<lfloor>x\<rfloor> else \<lceil>x\<rceil>)"

definition MakeTime :: "int \<Rightarrow> rat \<Rightarrow> int \<Rightarrow> int \<Rightarrow> int" where
  "MakeTime hour minute sec ms =
     hour * 3600000 + ToIntegerOrInfinity minute * 60000 + sec * 1000 + ms"

definition MakeDate :: "int \<Rightarrow> int \<Rightarrow> int" where
  "MakeDate day time = day * 86400000 + time"

definition getMinutes :: "TimeZone \<Rightarrow> Date \<Rightarrow> int" where
  "getMinutes z d = MinFromTime (LocalTime z d)"

text \<open>
  \<^verbatim>\<open>setMinutes(min)\<close> replaces the minutes field of the local time and converts the
  result back; \<open>min\<close> may lie outside \<open>0..59\<close>. (The clipping of the result to the
  range of dates is left out: it does not apply to dates within 270000 years of the
  epoch.)
\<close>

definition setMinutes :: "TimeZone \<Rightarrow> Date \<Rightarrow> rat \<Rightarrow> Date" where
  "setMinutes z d minute =
     (let t = LocalTime z d;
          date = MakeDate (Day t) (MakeTime (HourFromTime t) minute (SecFromTime t) (msFromTime t))
      in UTC z date)"

text \<open>
  The filter expression \<^verbatim>\<open>#status = :running AND last_heartbeat < :threshold\<close>: a
  comparison with an attribute the item does not have is false.
\<close>

definition findStaleSchedulers :: "TimeZone \<Rightarrow> Date \<Rightarrow> rat \<Rightarrow> Scheduler list \<Rightarrow> Scheduler list" where
  "findStaleSchedulers z now timeoutMinutes tbl =
     (let thresholdTime = setMinutes z now (of_int (getMinutes z now) - timeoutMinutes)
      in filter (\<lambda>item. status item = RUNNING \<and>
                   (case last_heartbeat item of None \<Rightarrow> False | Some hb \<Rightarrow> hb < thresholdTime))
           tbl)"


text \<open>
  \<^verbatim>\<open>create\<close> is a put under the condition \<^verbatim>\<open>attribute_not_exists(scheduler_id)\<close>:
  it is rejected when the key is taken. The repository stamps \<^verbatim>\<open>created_at\<close> and
  \<^verbatim>\<open>updated_at\<close> with its own reading \<open>now\<close> of the clock.
\<close>

definition create :: "Date \<Rightarrow> Scheduler \<Rightarrow> Scheduler list \<Rightarrow> (error + Scheduler) \<times> Scheduler list" where
  "create now scheduler tbl =
     (let item = scheduler\<lparr>created_at := now, updated_at := now\<rparr>
      in case findById tbl (scheduler_id scheduler) of
           Some _ \<Rightarrow> (Inl StoreFailure, tbl)
         | None \<Rightarrow> (Inr item, tbl @ [item]))"

text \<open>
  \<^verbatim>\<open>Partial<Scheduler>\<close>, as the service builds it: every field it may pass, \<open>None\<close>
  where the value is \<^verbatim>\<open>undefined\<close>.
\<close>

record SchedulerUpdates =
  u_service_name :: "string option"
  u_job_name :: "string option"
  u_status :: "SchedulerStatus option"
  u_timestamp :: "Date option"
  u_execution_time_ms :: "nat option"
  u_error_message :: "string option"
  u_metadata :: "SchedulerMetadata option"
  u_last_heartbeat :: "Date option"
  u_owner_email :: "string option"
  u_alert_user_id :: "string option"

text \<open>
  The update expression: \<^verbatim>\<open>updated_at\<close> is always set; an entry of \<^verbatim>\<open>updates\<close> is
  set only when \<^verbatim>\<open>value !== undefined\<close>, so an absent value leaves the stored attribute
  as it was.
\<close>

definition setIfDefined :: "'a option \<Rightarrow> 'a \<Rightarrow> 'a" where
  "setIfDefined v old = (case v of None \<Rightarrow> old | Some x \<Rightarrow> x)"

definition setOptIfDefined :: "'a option \<Rightarrow> 'a option \<Rightarrow> 'a option" where
  "setOptIfDefined v old = (case v of None \<Rightarrow> old | Some x \<Rightarrow> Some x)"

definition applyUpdates :: "Date \<Rightarrow> SchedulerUpdates \<Rightarrow> Scheduler \<Rightarrow> Scheduler" where
  "applyUpdates now updates item =
     item\<lparr>updated_at := now,
          service_name := setIfDefined (u_service_name updates) (service_name item),
          job_name := setIfDefined (u_job_name updates) (job_name item),
          status := setIfDefined (u_status updates) (status item),
          timestamp := setIfDefined (u_timestamp updates) (timestamp item),
          execution_time_ms := setOptIfDefined (u_execution_time_ms updates) (execution_time_ms item),
          error_message := setOptIfDefined (u_error_message updates) (error_message item),
          metadata := setOptIfDefined (u_metadata updates) (metadata item),
          last_heartbeat := setOptIfDefined (u_last_heartbeat updates) (last_heartbeat item),
          owner_email := setOptIfDefined (u_owner_email updates) (owner_email item),
          alert_user_id := setOptIfDefined (u_alert_user_id updates) (alert_user_id item)\<rparr>"

text \<open>
  \<^verbatim>\<open>update\<close> returns the new table and the item as \<^verbatim>\<open>ReturnValues: 'ALL_NEW'\<close> gives
  it. The service calls it only for a key that \<^verbatim>\<open>findById\<close> has just found; for a key
  the table does not hold, the model leaves the table as it is and returns \<open>None\<close>
  (DynamoDB would insert an item made of the key and the attributes set, which the
  entity type cannot express).
\<close>

definition update :: "Date \<Rightarrow> string \<Rightarrow> SchedulerUpdates \<Rightarrow> Scheduler list \<Rightarrow> Scheduler list \<times> Scheduler option" where
  "update now schedulerId updates tbl =
     (let tbl' = map (\<lambda>item. if scheduler_id item = schedulerId
                              then applyUpdates now updates item else item) tbl
      in (tbl', findById tbl' schedulerId))"

definition repo_updateHeartbeat :: "Date \<Rightarrow> string \<Rightarrow> Scheduler list \<Rightarrow> Scheduler list" where
  "repo_updateHeartbeat now schedulerId tbl =
     map (\<lambda>item. if scheduler_id item = schedulerId
                  then item\<lparr>last_heartbeat := Some now, updated_at := now\<rparr> else item) tbl"

section \<open>The history table (\<^verbatim>\<open>dynamodb-status-history.repository.ts\<close>)\<close>

text \<open>
  The table \<^verbatim>\<open>scheduler_status_history\<close> is created by
  \<^verbatim>\<open>scripts/setup-dynamodb.sh\<close> with the composite primary key \<^verbatim>\<open>scheduler_id\<close>
  (partition) and \<^verbatim>\<open>timestamp\<close> (sort), the key the queries of the repository rely on.
  \<^verbatim>\<open>create\<close> is an unconditional put: an item that has the key of a stored item takes
  its place. The identifier \<^verbatim>\<open>uuidv4()\<close> generates is the argument \<open>newId\<close>.
\<close>

definition sameKey :: "StatusHistory \<Rightarrow> StatusHistory \<Rightarrow> bool" where
  "sameKey a b = (h_scheduler_id a = h_scheduler_id b \<and> h_timestamp a = h_timestamp b)"

definition putItem :: "StatusHistory \<Rightarrow> StatusHistory list \<Rightarrow> StatusHistory list" where
  "putItem item hist = filter (\<lambda>e. \<not> sameKey e item) hist @ [item]"

definition history_create :: "string \<Rightarrow> StatusHistory \<Rightarrow> StatusHistory list \<Rightarrow> StatusHistory \<times> StatusHistory list" where
  "history_create newId statusHistory hist =
     (let item = \<lparr>h_id = newId,
                  h_scheduler_id = h_scheduler_id statusHistory,
                  h_status = h_status statusHistory,
                  h_timestamp = h_timestamp statusHistory,
                  h_execution_time_ms = h_execution_time_ms statusHistory,
                  h_error_message = h_error_message statusHistory,
                  h_metadata = h_metadata statusHistory\<rparr>
      in (item, putItem item hist))"

text \<open>
  The query by partition key, newest first (\<^verbatim>\<open>ScanIndexForward: false\<close>), at most
  \<^verbatim>\<open>Limit\<close> items; the default of the parameter is 50. DynamoDB rejects a limit below 1.
\<close>

definition findBySchedulerId :: "StatusHistory list \<Rightarrow> string \<Rightarrow> nat option \<Rightarrow> error + StatusHistory list" where
  "findBySchedulerId hist schedulerId limit =
     (let lim = (case limit of None \<Rightarrow> 50 | Some n \<Rightarrow> n)
      in if lim = 0 then Inl StoreFailure
         else Inr (take lim (rev (sort_key h_timestamp
                     (filter (\<lambda>e. h_scheduler_id e = schedulerId) hist)))))"

section \<open>The notification service (\<^verbatim>\<open>slack-notification.service.ts\<close>)\<close>

text \<open>
  A message is a list of blocks. The texts are byte strings: a character outside ASCII is
  its UTF-8 bytes.
\<close>

datatype Block =
    Header string
  | Divider
  | SectionFields "string list"
  | SectionText string
  | Context "string list"

text \<open>
  The two calls of the Slack client the service uses, with their arguments:
  \<^verbatim>\<open>chat.postMessage({channel, blocks, text})\<close> and
  \<^verbatim>\<open>chat.update({channel, ts, blocks, text})\<close>.
\<close>

datatype SlackCall =
    PostMessage string "Block list" string
  | ChatUpdate string string "Block list" string

text \<open>
  The service with its configuration and what it calls from outside the repository:
  \<open>tzFormat d\<close> is \<^verbatim>\<open>dayjs(d).tz(timezone).format('DD MMM YYYY HH:mm:ss')\<close>,
  \<open>toFixed a b k\<close> is \<^verbatim>\<open>(a / b).toFixed(k)\<close> on floating-point numbers, and \<open>chat\<close>
  is the Slack client: \<open>None\<close> when the promise of the call is rejected, otherwise the
  \<^verbatim>\<open>ts\<close> of the answer.
\<close>

record SlackNotificationService =
  enabled :: bool
  channelId :: string
  tzFormat :: "Date \<Rightarrow> string"
  toFixed :: "nat \<Rightarrow> nat \<Rightarrow> nat \<Rightarrow> string"
  chat :: "SlackCall \<Rightarrow> string option"

definition STATUS_EMOJI :: "SchedulerStatus \<Rightarrow> string" where
  "STATUS_EMOJI st =
     (case st of
        PENDING \<Rightarrow> [CHR 0xE2, CHR 0xAC, CHR 0x9C]
      | RUNNING \<Rightarrow> [CHR 0xF0, CHR 0x9F, CHR 0x9F, CHR 0xA1]
      | COMPLETED \<Rightarrow> [CHR 0xE2, CHR 0x9C, CHR 0x85]
      | FAILED \<Rightarrow> [CHR 0xE2, CHR 0x9D, CHR 0x8C])"

definition statusValue :: "SchedulerStatus \<Rightarrow> string" where
  "statusValue st =
     (case st of PENDING \<Rightarrow> ''pending'' | RUNNING \<Rightarrow> ''running''
               | COMPLETED \<Rightarrow> ''completed'' | FAILED \<Rightarrow> ''failed'')"

text \<open>The decimal text of a number, as a template literal prints it.\<close>

fun showNat :: "nat \<Rightarrow> string" where
  "showNat n = (if n < 10 then [char_of (48 + n)]
                else showNat (n div 10) @ [char_of (48 + n mod 10)])"

declare showNat.simps [simp del]

definition newline :: string where
  "newline = [CHR 0x0A]"

definition formatTimestamp :: "SlackNotificationService \<Rightarrow> Date option \<Rightarrow> string" where
  "formatTimestamp N date = (case date of None \<Rightarrow> ''N/A'' | Some d \<Rightarrow> tzFormat N d)"

definition formatExecutionTime :: "SlackNotificationService \<Rightarrow> nat \<Rightarrow> string" where
  "formatExecutionTime N ms =
     (if ms < 1000 then showNat ms @ ''ms''
      else if ms < 60000 then toFixed N ms 1000 2 @ ''s''
      else (let minutes = ms div 60000; seconds = toFixed N (ms mod 60000) 1000 0
            in showNat minutes @ ''m '' @ seconds @ ''s''))"

text \<open>
  The truth value JavaScript gives an optional number and an optional string in a
  condition: \<^verbatim>\<open>undefined\<close>, \<^verbatim>\<open>0\<close> and the empty string are false.
\<close>

definition truthyNum :: "nat option \<Rightarrow> bool" where
  "truthyNum v = (case v of None \<Rightarrow> False | Some n \<Rightarrow> 0 < n)"

definition truthyStr :: "string option \<Rightarrow> bool" where
  "truthyStr v = (case v of None \<Rightarrow> False | Some t \<Rightarrow> 0 < length t)"

definition countStatus :: "SchedulerStatus \<Rightarrow> Scheduler list \<Rightarrow> nat" where
  "countStatus st schedulers = length (filter (\<lambda>s. status s = st) schedulers)"

definition buildStatusSummary :: "Scheduler list \<Rightarrow> (string \<times> nat) list" where
  "buildStatusSummary schedulers =
     [(''Pending'', countStatus PENDING schedulers),
      (''Running'', countStatus RUNNING schedulers),
      (''Completed'', countStatus COMPLETED schedulers),
      (''Failed'', countStatus FAILED schedulers)]"

text \<open>
  The annotation \<^verbatim>\<open>buildStatusTableBlocks\<close> adds for a scheduler that has an
  execution time, and the body of its \<^verbatim>\<open>forEach\<close> for one scheduler.
\<close>

definition executionTimeBlock :: "SlackNotificationService \<Rightarrow> nat \<Rightarrow> Block" where
  "executionTimeBlock N ms = Context [''Execution time: '' @ formatExecutionTime N ms]"

definition schedulerBlocks :: "SlackNotificationService \<Rightarrow> Scheduler \<Rightarrow> Block list" where
  "schedulerBlocks N scheduler =
     [SectionFields
        [''*Service:*'' @ newline @ service_name scheduler,
         ''*Job:*'' @ newline @ job_name scheduler,
         ''*Status:*'' @ newline @ STATUS_EMOJI (status scheduler) @ '' ''
            @ statusValue (status scheduler),
         ''*Updated:*'' @ newline @ formatTimestamp N (Some (updated_at scheduler))]]
     @ (if truthyNum (execution_time_ms scheduler)
        then [executionTimeBlock N (the (execution_time_ms scheduler))]
        else [])"

definition legend :: string where
  "legend = ''Legend: '' @ STATUS_EMOJI PENDING @ '' Pending | '' @ STATUS_EMOJI RUNNING
     @ '' Running | '' @ STATUS_EMOJI COMPLETED @ '' Success | '' @ STATUS_EMOJI FAILED
     @ '' Failed''"

definition buildStatusTableBlocks :: "SlackNotificationService \<Rightarrow> Scheduler list \<Rightarrow> Date \<Rightarrow> Block list" where
  "buildStatusTableBlocks N schedulers ts =
     (let formattedTime = formatTimestamp N (Some ts);
          summary = buildStatusSummary schedulers
      in [Header ([CHR 0xF0, CHR 0x9F, CHR 0x93, CHR 0x8A] @ '' EOD Process Status - ''
                  @ formattedTime),
          Divider,
          SectionFields (map (\<lambda>(st, count). ''*'' @ st @ '':* '' @ showNat count) summary),
          Divider]
         @ concat (map (schedulerBlocks N) schedulers)
         @ [Divider, Context [legend]])"

text \<open>
  Each sending operation returns its result and the calls it made to the Slack client. A
  rejected call is logged and thrown again: the operation fails with \<open>DeliveryFailure\<close>.
\<close>

definition sendStatusTable :: "SlackNotificationService \<Rightarrow> Scheduler list \<Rightarrow> Date \<Rightarrow> (error + string) \<times> SlackCall list" where
  "sendStatusTable N schedulers ts =
     (if \<not> enabled N then (Inr [], [])
      else (let blocks = buildStatusTableBlocks N schedulers ts;
                call = PostMessage (channelId N) blocks ''EOD Process Status Update''
            in case chat N call of
                 Some msgTs \<Rightarrow> (Inr msgTs, [call])
               | None \<Rightarrow> (Inl DeliveryFailure, [call])))"

definition updateStatusTable :: "SlackNotificationService \<Rightarrow> string \<Rightarrow> Scheduler list \<Rightarrow> Date \<Rightarrow> (error + unit) \<times> SlackCall list" where
  "updateStatusTable N messageTs schedulers ts =
     (if \<not> enabled N then (Inr (), [])
      else (let blocks = buildStatusTableBlocks N schedulers ts;
                call = ChatUpdate (channelId N) messageTs blocks ''EOD Process Status Update''
            in case chat N call of
                 Some _ \<Rightarrow> (Inr (), [call])
               | None \<Rightarrow> (Inl DeliveryFailure, [call])))"

definition userMention :: "Scheduler \<Rightarrow> string" where
  "userMention scheduler =
     (if truthyStr (alert_user_id scheduler)
      then ''<@'' @ the (alert_user_id scheduler) @ ''>'' else ''@channel'')"

definition failedJobBlocks :: "SlackNotificationService \<Rightarrow> Scheduler \<Rightarrow> Block list" where
  "failedJobBlocks N scheduler =
     [Header ([CHR 0xF0, CHR 0x9F, CHR 0x9A, CHR 0xA8] @ '' Job Failed Alert''),
      SectionFields
        [''*Service:*'' @ newline @ service_name scheduler,
         ''*Job:*'' @ newline @ job_name scheduler,
         ''*Status:*'' @ newline @ STATUS_EMOJI (status scheduler) @ '' ''
            @ statusValue (status scheduler),
         ''*Time:*'' @ newline @ formatTimestamp N (Some (timestamp scheduler))]]
     @ (if truthyStr (error_message scheduler)
        then [SectionText (''*Error Message:*'' @ newline @ ''```''
                @ the (error_message scheduler) @ ''```'')]
        else [])
     @ [Context [userMention scheduler @ '' Please investigate this issue.'']]"

definition failedJobCall :: "SlackNotificationService \<Rightarrow> Scheduler \<Rightarrow> SlackCall" where
  "failedJobCall N scheduler =
     PostMessage (channelId N) (failedJobBlocks N scheduler)
       (''Job Failed: '' @ service_name scheduler @ '' - '' @ job_name scheduler)"

definition sendFailedJobAlert :: "SlackNotificationService \<Rightarrow> Scheduler \<Rightarrow> (error + unit) \<times> SlackCall list" where
  "sendFailedJobAlert N scheduler =
     (if \<not> enabled N then (Inr (), [])
      else (let call = failedJobCall N scheduler
            in case chat N call of
                 Some _ \<Rightarrow> (Inr (), [call])
               | None \<Rightarrow> (Inl DeliveryFailure, [call])))"

definition execOrZero :: "nat option \<Rightarrow> nat" where
  "execOrZero v = (case v of None \<Rightarrow> 0 | Some n \<Rightarrow> n)"

definition allClearBlocks :: "SlackNotificationService \<Rightarrow> Scheduler list \<Rightarrow> Date \<Rightarrow> Block list" where
  "allClearBlocks N schedulers now =
     (let completedCount = length (filter isCompleted schedulers);
          totalCount = length schedulers;
          totalExecutionTime =
            foldl (\<lambda>sum s. sum + execOrZero (execution_time_ms s)) 0
              (filter (\<lambda>s. truthyNum (execution_time_ms s)) schedulers)
      in [Header ([CHR 0xE2, CHR 0x9C, CHR 0x85] @ '' All EOD Jobs Completed''),
          SectionFields
            [''*Total Jobs:*'' @ newline @ showNat totalCount,
             ''*Completed:*'' @ newline @ showNat completedCount,
             ''*Total Execution Time:*'' @ newline @ formatExecutionTime N totalExecutionTime,
             ''*Completion Time:*'' @ newline @ formatTimestamp N (Some now)],
          Divider]
         @ map (\<lambda>scheduler. SectionText
                  (STATUS_EMOJI (status scheduler) @ '' *'' @ service_name scheduler @ ''* - ''
                   @ job_name scheduler @ newline @ ''_Execution time: ''
                   @ formatExecutionTime N (execOrZero (execution_time_ms scheduler)) @ ''_''))
             schedulers)"

definition allClearCall :: "SlackNotificationService \<Rightarrow> Scheduler list \<Rightarrow> Date \<Rightarrow> SlackCall" where
  "allClearCall N schedulers now =
     PostMessage (channelId N) (allClearBlocks N schedulers now) ''All EOD Jobs Completed''"

definition sendAllClearSummary :: "SlackNotificationService \<Rightarrow> Scheduler list \<Rightarrow> Date \<Rightarrow> (error + unit) \<times> SlackCall list" where
  "sendAllClearSummary N schedulers now =
     (if \<not> enabled N then (Inr (), [])
      else (let call = allClearCall N schedulers now
            in case chat N call of
                 Some _ \<Rightarrow> (Inr (), [call])
               | None \<Rightarrow> (Inl DeliveryFailure, [call])))"

section \<open>The scheduler service (\<^verbatim>\<open>scheduler.service.ts\<close>)\<close>

text \<open>
  The request objects. \<^verbatim>\<open>UpdateStatusDto.timestamp\<close> is an ISO-8601 text that the
  service turns into a date at once; \<open>d_timestamp\<close> is that date.
\<close>

record RegisterSchedulerDto =
  r_scheduler_id :: string
  r_service_name :: string
  r_job_name :: string
  r_owner_email :: "string option"
  r_alert_user_id :: "string option"

record UpdateStatusDto =
  d_scheduler_id :: string
  d_service_name :: string
  d_job_name :: string
  d_status :: SchedulerStatus
  d_timestamp :: Date
  d_execution_time_ms :: "nat option"
  d_error_message :: "string option"
  d_metadata :: "SchedulerMetadata option"

text \<open>
  What the service acts on: the two tables and the calls made to the Slack client so far.
  An operation takes this state and returns its result, \<open>Inl\<close> for a thrown error, with
  the state it leaves behind.
\<close>

record World =
  schedulersTable :: "Scheduler list"
  historyTable :: "StatusHistory list"
  outbox :: "SlackCall list"

definition notFoundRegisterFirst :: "string \<Rightarrow> error" where
  "notFoundRegisterFirst schedulerId =
     NotFound (''Scheduler '' @ schedulerId @ '' not found. Please register first.'')"

text \<open>
  The object literals the service passes to \<^verbatim>\<open>update\<close>: the one of
  \<^verbatim>\<open>registerScheduler\<close> for a scheduler that exists, and \<^verbatim>\<open>updates\<close> of
  \<^verbatim>\<open>updateStatus\<close>. A key they do not mention is \<open>None\<close>, as is an optional field
  the request leaves out.
  \<open>now\<close> is the clock as the service reads it, \<open>repoNow\<close> as the repository reads it
  during the same call.
\<close>

definition registerUpdates :: "RegisterSchedulerDto \<Rightarrow> SchedulerUpdates" where
  "registerUpdates dto =
     \<lparr>u_service_name = Some (r_service_name dto),
      u_job_name = Some (r_job_name dto),
      u_status = None, u_timestamp = None, u_execution_time_ms = None,
      u_error_message = None, u_metadata = None, u_last_heartbeat = None,
      u_owner_email = r_owner_email dto,
      u_alert_user_id = r_alert_user_id dto\<rparr>"

definition statusUpdates :: "Date \<Rightarrow> UpdateStatusDto \<Rightarrow> SchedulerUpdates" where
  "statusUpdates now dto =
     \<lparr>u_service_name = Some (d_service_name dto),
      u_job_name = Some (d_job_name dto),
      u_status = Some (d_status dto),
      u_timestamp = Some (d_timestamp dto),
      u_execution_time_ms = d_execution_time_ms dto,
      u_error_message = d_error_message dto,
      u_metadata = d_metadata dto,
      u_last_heartbeat = Some now,
      u_owner_email = None,
      u_alert_user_id = None\<rparr>"

definition registerScheduler :: "Date \<Rightarrow> Date \<Rightarrow> RegisterSchedulerDto \<Rightarrow> World \<Rightarrow> (error + Scheduler) \<times> World" where
  "registerScheduler now repoNow dto w =
     (case findById (schedulersTable w) (r_scheduler_id dto) of
        Some existing \<Rightarrow>
          (case update repoNow (r_scheduler_id dto) (registerUpdates dto) (schedulersTable w) of
             (tbl, Some updated) \<Rightarrow> (Inr updated, w\<lparr>schedulersTable := tbl\<rparr>)
           | (tbl, None) \<Rightarrow> (Inl StoreFailure, w\<lparr>schedulersTable := tbl\<rparr>))
      | None \<Rightarrow>
          (let scheduler =
                 \<lparr>scheduler_id = r_scheduler_id dto,
                  service_name = r_service_name dto,
                  job_name = r_job_name dto,
                  status = PENDING,
                  timestamp = now,
                  execution_time_ms = None,
                  error_message = None,
                  metadata = None,
                  last_heartbeat = None,
                  created_at = now,
                  updated_at = now,
                  owner_email = r_owner_email dto,
                  alert_user_id = r_alert_user_id dto\<rparr>
           in case create repoNow scheduler (schedulersTable w) of
                (res, tbl) \<Rightarrow> (res, w\<lparr>schedulersTable := tbl\<rparr>)))"

definition createStatusHistory :: "string \<Rightarrow> Scheduler \<Rightarrow> StatusHistory list \<Rightarrow> StatusHistory list" where
  "createStatusHistory newId scheduler hist =
     (let entry = \<lparr>h_id = [],
                   h_scheduler_id = scheduler_id scheduler,
                   h_status = status scheduler,
                   h_timestamp = timestamp scheduler,
                   h_execution_time_ms = execution_time_ms scheduler,
                   h_error_message = error_message scheduler,
                   h_metadata = metadata scheduler\<rparr>
      in snd (history_create newId entry hist))"

definition handleFailedJob :: "SlackNotificationService \<Rightarrow> Scheduler \<Rightarrow> (error + unit) \<times> SlackCall list" where
  "handleFailedJob N scheduler = sendFailedJobAlert N scheduler"

definition updateStatus :: "SlackNotificationService \<Rightarrow> Date \<Rightarrow> Date \<Rightarrow> string \<Rightarrow> UpdateStatusDto \<Rightarrow> World \<Rightarrow> (error + Scheduler) \<times> World" where
  "updateStatus N now repoNow newId dto w =
     (case findById (schedulersTable w) (d_scheduler_id dto) of
        None \<Rightarrow> (Inl (notFoundRegisterFirst (d_scheduler_id dto)), w)
      | Some existing \<Rightarrow>
          (let updates = statusUpdates now dto
           in case update repoNow (d_scheduler_id dto) updates (schedulersTable w) of
                (tbl, None) \<Rightarrow> (Inl StoreFailure, w\<lparr>schedulersTable := tbl\<rparr>)
              | (tbl, Some updatedScheduler) \<Rightarrow>
                  (let w1 = w\<lparr>schedulersTable := tbl,
                              historyTable := createStatusHistory newId updatedScheduler (historyTable w)\<rparr>
                   in if d_status dto = FAILED
                      then (case handleFailedJob N updatedScheduler of
                              (Inl e, calls) \<Rightarrow> (Inl e, w1\<lparr>outbox := outbox w1 @ calls\<rparr>)
                            | (Inr _, calls) \<Rightarrow>
                                (Inr updatedScheduler, w1\<lparr>outbox := outbox w1 @ calls\<rparr>))
                      else (Inr updatedScheduler, w1))))"

definition updateHeartbeat :: "Date \<Rightarrow> string \<Rightarrow> World \<Rightarrow> (error + unit) \<times> World" where
  "updateHeartbeat repoNow schedulerId w =
     (case findById (schedulersTable w) schedulerId of
        None \<Rightarrow> (Inl (notFoundRegisterFirst schedulerId), w)
      | Some existing \<Rightarrow>
          (Inr (), w\<lparr>schedulersTable := repo_updateHeartbeat repoNow schedulerId (schedulersTable w)\<rparr>))"

definition getScheduler :: "string \<Rightarrow> World \<Rightarrow> error + Scheduler" where
  "getScheduler schedulerId w =
     (case findById (schedulersTable w) schedulerId of
        None \<Rightarrow> Inl (NotFound (''Scheduler '' @ schedulerId @ '' not found''))
      | Some scheduler \<Rightarrow> Inr scheduler)"

definition getAllSchedulers :: "World \<Rightarrow> Scheduler list" where
  "getAllSchedulers w = findAll (schedulersTable w)"

definition getSchedulerHistory :: "string \<Rightarrow> nat option \<Rightarrow> World \<Rightarrow> error + StatusHistory list" where
  "getSchedulerHistory schedulerId limit w = findBySchedulerId (historyTable w) schedulerId limit"

text \<open>
  The all-clear condition: \<^verbatim>\<open>schedulers.every((s) => s.isCompleted())\<close>, which holds
  of the empty list, and \<^verbatim>\<open>schedulers.length > 0\<close>.
\<close>

definition allClear :: "Scheduler list \<Rightarrow> bool" where
  "allClear schedulers =
     (let allCompleted = list_all isCompleted schedulers
      in allCompleted \<and> length schedulers > 0)"

definition checkAllClear :: "SlackNotificationService \<Rightarrow> Date \<Rightarrow> World \<Rightarrow> (error + bool) \<times> World" where
  "checkAllClear N now w =
     (let schedulers = findAll (schedulersTable w)
      in if allClear schedulers
         then (case sendAllClearSummary N schedulers now of
                 (Inl e, calls) \<Rightarrow> (Inl e, w\<lparr>outbox := outbox w @ calls\<rparr>)
               | (Inr _, calls) \<Rightarrow> (Inr True, w\<lparr>outbox := outbox w @ calls\<rparr>))
         else (Inr False, w))"

section \<open>The notification worker (\<^verbatim>\<open>slack-worker.service.ts\<close>)\<close>

text \<open>
  The worker holds the handle \<^verbatim>\<open>currentMessageTs\<close> of the open status message. A
  trigger takes the notification service, the outcome \<open>fetch\<close> of
  \<^verbatim>\<open>schedulerRepository.findAll()\<close> (\<open>Inl\<close> when the store call fails), the clock and
  the worker, and returns the worker with the calls made to the Slack client. An error
  thrown inside \<^verbatim>\<open>try\<close> is caught and logged.
\<close>

record SlackWorkerService =
  currentMessageTs :: "string option"
  startHour :: int
  endHour :: int

definition sendInitialStatusTable :: "SlackNotificationService \<Rightarrow> (error + Scheduler list) \<Rightarrow> Date \<Rightarrow> SlackWorkerService \<Rightarrow> SlackWorkerService \<times> SlackCall list" where
  "sendInitialStatusTable N fetch now wk =
     (if \<not> enabled N then (wk, [])
      else case fetch of
             Inl e \<Rightarrow> (wk, [])
           | Inr schedulers \<Rightarrow>
               (case sendStatusTable N schedulers now of
                  (Inl e, calls) \<Rightarrow> (wk, calls)
                | (Inr messageTs, calls) \<Rightarrow> (wk\<lparr>currentMessageTs := Some messageTs\<rparr>, calls)))"

definition worker_updateStatusTable :: "SlackNotificationService \<Rightarrow> (error + Scheduler list) \<Rightarrow> Date \<Rightarrow> int \<Rightarrow> SlackWorkerService \<Rightarrow> SlackWorkerService \<times> SlackCall list" where
  "worker_updateStatusTable N fetch now currentHour wk =
     (if \<not> enabled N then (wk, [])
      else if currentHour \<le> startHour wk \<or> currentHour > endHour wk then (wk, [])
      else if \<not> truthyStr (currentMessageTs wk) then sendInitialStatusTable N fetch now wk
      else case fetch of
             Inl e \<Rightarrow> (wk\<lparr>currentMessageTs := None\<rparr>, [])
           | Inr schedulers \<Rightarrow>
               (case updateStatusTable N (the (currentMessageTs wk)) schedulers now of
                  (Inl e, calls) \<Rightarrow> (wk\<lparr>currentMessageTs := None\<rparr>, calls)
                | (Inr _, calls) \<Rightarrow> (wk, calls)))"

definition sendFinalStatusSummary :: "SlackNotificationService \<Rightarrow> (error + Scheduler list) \<Rightarrow> Date \<Rightarrow> SlackWorkerService \<Rightarrow> SlackWorkerService \<times> SlackCall list" where
  "sendFinalStatusSummary N fetch now wk =
     (if \<not> enabled N then (wk, [])
      else case fetch of
             Inl e \<Rightarrow> (wk, [])
           | Inr schedulers \<Rightarrow>
               (case (if truthyStr (currentMessageTs wk)
                      then updateStatusTable N (the (currentMessageTs wk)) schedulers now
                      else (Inr (), [])) of
                  (Inl e, calls1) \<Rightarrow> (wk, calls1)
                | (Inr _, calls1) \<Rightarrow>
                    (case (if allClear schedulers
                           then sendAllClearSummary N schedulers now
                           else (Inr (), [])) of
                       (Inl e, calls2) \<Rightarrow> (wk, calls1 @ calls2)
                     | (Inr _, calls2) \<Rightarrow>
                         (wk\<lparr>currentMessageTs := None\<rparr>, calls1 @ calls2))))"

section \<open>Sample inputs\<close>

text \<open>
  Concrete records, requests and services at which the theorems below are instantiated:
  a scheduler whose last report was a failure, the history entry of that report, a Slack
  client that accepts every call, one that rejects every call and one that rejects the
  edits of a message only.
\<close>

definition sampleScheduler :: Scheduler where
  "sampleScheduler =
     \<lparr>scheduler_id = ''svc-a-eod'', service_name = ''Service A'', job_name = ''EOD Processing'',
      status = FAILED, timestamp = 1000, execution_time_ms = Some 15000,
      error_message = Some ''timeout'', metadata = Some [(''records_processed'', ''1000'')],
      last_heartbeat = Some 900, created_at = 0, updated_at = 1000,
      owner_email = Some ''team-a@example.com'', alert_user_id = Some ''U1234567890''\<rparr>"

definition sampleEntry :: StatusHistory where
  "sampleEntry =
     \<lparr>h_id = ''id-1'', h_scheduler_id = ''svc-a-eod'', h_status = FAILED, h_timestamp = 1000,
      h_execution_time_ms = Some 15000, h_error_message = Some ''timeout'',
      h_metadata = Some [(''records_processed'', ''1000'')]\<rparr>"

definition sampleWorld :: World where
  "sampleWorld = \<lparr>schedulersTable = [sampleScheduler], historyTable = [sampleEntry], outbox = []\<rparr>"

definition emptyWorld :: World where
  "emptyWorld = \<lparr>schedulersTable = [], historyTable = [], outbox = []\<rparr>"

definition sampleSlack :: SlackNotificationService where
  "sampleSlack =
     \<lparr>enabled = True, channelId = ''C0123456789'',
      tzFormat = (\<lambda>d. showNat (nat d)),
      toFixed = (\<lambda>a b k. showNat (a div b)),
      chat = (\<lambda>call. Some ''1700000000.000100'')\<rparr>"

definition failingSlack :: SlackNotificationService where
  "failingSlack = sampleSlack\<lparr>chat := (\<lambda>call. None)\<rparr>"

definition editFailingSlack :: SlackNotificationService where
  "editFailingSlack =
     sampleSlack\<lparr>chat := (\<lambda>call. case call of
                                   ChatUpdate c t b x \<Rightarrow> None
                                 | PostMessage c b x \<Rightarrow> Some ''1700000000.000200'')\<rparr>"

definition runningDto :: UpdateStatusDto where
  "runningDto =
     \<lparr>d_scheduler_id = ''svc-a-eod'', d_service_name = ''Service A'', d_job_name = ''EOD Processing'',
      d_status = RUNNING, d_timestamp = 2000, d_execution_time_ms = None,
      d_error_message = None, d_metadata = None\<rparr>"

definition retriedDto :: UpdateStatusDto where
  "retriedDto =
     \<lparr>d_scheduler_id = ''svc-a-eod'', d_service_name = ''Service A'', d_job_name = ''EOD Processing'',
      d_status = COMPLETED, d_timestamp = 1000, d_execution_time_ms = Some 15000,
      d_error_message = None, d_metadata = None\<rparr>"

definition failedDto :: UpdateStatusDto where
  "failedDto =
     \<lparr>d_scheduler_id = ''svc-a-eod'', d_service_name = ''Service A'', d_job_name = ''EOD Processing'',
      d_status = FAILED, d_timestamp = 3000, d_execution_time_ms = None,
      d_error_message = Some ''disk full'', d_metadata = None\<rparr>"

definition registerDto :: RegisterSchedulerDto where
  "registerDto =
     \<lparr>r_scheduler_id = ''svc-a-eod'', r_service_name = ''Service A v2'', r_job_name = ''EOD Run'',
      r_owner_email = None, r_alert_user_id = Some ''U999''\<rparr>"

definition completedScheduler :: Scheduler where
  "completedScheduler =
     sampleScheduler\<lparr>status := COMPLETED, error_message := None, execution_time_ms := Some 0\<rparr>"

definition sampleWorker :: SlackWorkerService where
  "sampleWorker = \<lparr>currentMessageTs = Some ''1700000000.000100'', startHour = 0, endHour = 6\<rparr>"

text \<open>
  Two zones for the process: UTC, and New York around the end of daylight saving on 3
  November 2024, when at 06:00 UTC (1730613600000) the offset goes from four hours behind
  UTC to five. The local times before 02:00 of that day, those of the repeated hour
  included, take the offset before the transition.
\<close>

definition utcZone :: TimeZone where
  "utcZone = \<lparr>tzaUtc = (\<lambda>t. 0), tzaLocal = (\<lambda>t. 0)\<rparr>"

definition newYorkZone :: TimeZone where
  "newYorkZone =
     \<lparr>tzaUtc = (\<lambda>t. if t < 1730613600000 then - 14400000 else - 18000000),
      tzaLocal = (\<lambda>t. if t < 1730613600000 - 14400000 then - 14400000 else - 18000000)\<rparr>"

definition runningSince :: "Date \<Rightarrow> Scheduler" where
  "runningSince hb = sampleScheduler\<lparr>status := RUNNING, last_heartbeat := Some hb\<rparr>"

text \<open>
  The annotation of the status table is recognised by its text: a context block of one
  element that starts with \<^verbatim>\<open>Execution time: \<close>.
\<close>

definition isExecutionTimeBlock :: "Block \<Rightarrow> bool" where
  "isExecutionTimeBlock b =
     (case b of
        Context [t] \<Rightarrow> take 16 t = ''Execution time: ''
      | _ \<Rightarrow> False)"

section \<open>Staleness\<close>

text \<open>
  A date is the sum of its fields, so setting the minutes field moves the local time by
  whole minutes; what instant that local time is depends on the zone.
\<close>

lemma time_fields:
  "Day t * 86400000 + (HourFromTime t * 3600000 + MinFromTime t * 60000 + SecFromTime t * 1000
     + msFromTime t) = t"
proof -
  define a where "a = t div 1000"
  define b where "b = a div 60"
  define c where "c = b div 60"
  define d where "d = c div 24"
  define m0 where "m0 = t mod 1000"
  define m1 where "m1 = a mod 60"
  define m2 where "m2 = b mod 60"
  define m3 where "m3 = c mod 24"
  have b: "t div 60000 = b"
    unfolding b_def a_def by (simp add: zdiv_zmult2_eq)
  have c: "t div 3600000 = c"
    unfolding c_def b_def a_def by (simp add: zdiv_zmult2_eq)
  have d: "t div 86400000 = d"
    unfolding d_def c_def b_def a_def by (simp add: zdiv_zmult2_eq)
  have "t = a * 1000 + m0" by (simp add: a_def m0_def)
  moreover have "a = b * 60 + m1" by (simp add: b_def m1_def)
  moreover have "b = c * 60 + m2" by (simp add: c_def m2_def)
  moreover have "c = d * 24 + m3" by (simp add: d_def m3_def)
  ultimately have "d * 86400000 + (m3 * 3600000 + m2 * 60000 + m1 * 1000 + m0) = t"
    by simp
  then show ?thesis
    unfolding Day_def HourFromTime_def MinFromTime_def SecFromTime_def msFromTime_def b c d
    unfolding a_def [symmetric] m0_def m1_def m2_def m3_def .
qed

lemma setMinutes_eq:
  "setMinutes z d m =
     UTC z (LocalTime z d + (ToIntegerOrInfinity m - MinFromTime (LocalTime z d)) * 60000)"
proof -
  have "MakeDate (Day t) (MakeTime (HourFromTime t) m (SecFromTime t) (msFromTime t)) =
          t + (ToIntegerOrInfinity m - MinFromTime t) * 60000" for t
    using time_fields [of t] by (simp add: MakeDate_def MakeTime_def algebra_simps)
  then show ?thesis by (simp add: setMinutes_def Let_def)
qed

lemma ToIntegerOrInfinity_of_int [simp]: "ToIntegerOrInfinity (of_int k) = k"
  by (simp add: ToIntegerOrInfinity_def)

lemma threshold_fixed_offset:
  assumes "tzaUtc z = (\<lambda>t. c)" and "tzaLocal z = (\<lambda>t. c)"
  shows "setMinutes z now (of_int (getMinutes z now) - of_int k) = now - k * 60000"
proof -
  have "of_int (getMinutes z now) - (of_int k :: rat) = of_int (getMinutes z now - k)"
    by simp
  then show ?thesis
    unfolding setMinutes_eq
    by (simp only: ToIntegerOrInfinity_of_int)
       (simp add: assms UTC_def LocalTime_def getMinutes_def algebra_simps)
qed

lemma isStale_iff:
  "isStale now s timeoutMinutes \<longleftrightarrow>
     (\<exists>hb. last_heartbeat s = Some hb \<and> of_int (now - hb) > timeoutMinutes * 60000)"
  by (cases "last_heartbeat s") (simp_all add: isStale_def Let_def mult.commute)

lemma staleness_examples:
  "isStale now (s\<lparr>last_heartbeat := Some (now - 11 * 60000)\<rparr>) 10"
  "\<not> isStale now (s\<lparr>last_heartbeat := Some (now - 9 * 60000)\<rparr>) 10"
  "\<not> isStale now (s\<lparr>last_heartbeat := None\<rparr>) timeoutMinutes"
  by (simp_all add: isStale_def)

lemma findStaleSchedulers_fixed_offset:
  assumes "tzaUtc z = (\<lambda>t. c)" and "tzaLocal z = (\<lambda>t. c)"
  shows "s \<in> set (findStaleSchedulers z now (of_int k) tbl) \<longleftrightarrow>
     s \<in> set tbl \<and> status s = RUNNING \<and>
     (\<exists>hb. last_heartbeat s = Some hb \<and> now - hb > k * 60000)"
proof -
  have "(case last_heartbeat s of None \<Rightarrow> False | Some hb \<Rightarrow> hb < now - k * 60000)
        \<longleftrightarrow> (\<exists>hb. last_heartbeat s = Some hb \<and> now - hb > k * 60000)"
    by (cases "last_heartbeat s") auto
  then show ?thesis
    unfolding findStaleSchedulers_def threshold_fixed_offset [OF assms] Let_def
    by auto
qed

lemma findStaleSchedulers_isStale:
  assumes "tzaUtc z = (\<lambda>t. c)" and "tzaLocal z = (\<lambda>t. c)"
  shows "set (findStaleSchedulers z now (of_int k) tbl) =
           {s \<in> set tbl. isRunning s \<and> isStale now s (of_int k)}"
proof -
  have "(of_int k :: rat) * 60000 < of_int (now - hb) \<longleftrightarrow> k * 60000 < now - hb" for hb
    by (metis (mono_tags) of_int_less_iff of_int_mult of_int_numeral)
  then show ?thesis
    using findStaleSchedulers_fixed_offset [OF assms, of _ now k tbl]
    by (auto simp: isStale_iff isRunning_def)
qed

lemma findStaleSchedulers_no_heartbeat:
  "last_heartbeat s = None \<Longrightarrow> s \<notin> set (findStaleSchedulers z now timeoutMinutes tbl)"
  by (simp add: findStaleSchedulers_def Let_def)

lemma newYork_now:
  "LocalTime newYorkZone 1730613900000 = 1730595900000"
  "MinFromTime 1730595900000 = 5"
  by (simp_all add: LocalTime_def newYorkZone_def MinFromTime_def)

lemma newYork_threshold:
  "setMinutes newYorkZone 1730613900000 (of_int (getMinutes newYorkZone 1730613900000) - 10)
     = 1730609700000"
proof -
  have "of_int (getMinutes newYorkZone 1730613900000) - (10 :: rat) = of_int (- 5)"
    by (simp add: getMinutes_def newYork_now)
  then show ?thesis
    unfolding setMinutes_eq
    by (simp only: ToIntegerOrInfinity_of_int newYork_now)
       (simp add: UTC_def newYorkZone_def)
qed

lemma utc_half_minute_threshold:
  "setMinutes utcZone 1730613900000 (of_int (getMinutes utcZone 1730613900000) - 1 / 2)
     = 1730613840000"
proof -
  have m: "getMinutes utcZone 1730613900000 = 5"
    by (simp add: getMinutes_def LocalTime_def utcZone_def MinFromTime_def)
  have "ToIntegerOrInfinity (5 - 1 / 2) = 4"
    by (simp add: ToIntegerOrInfinity_def floor_eq_iff)
  then show ?thesis
    unfolding setMinutes_eq m
    by (simp add: UTC_def LocalTime_def utcZone_def MinFromTime_def)
qed

text \<open>
  Claim C1 at two inputs. In the New York zone at 06:05 UTC on 3 November 2024, five
  minutes after the clocks went back, a running scheduler whose last heartbeat is eleven
  minutes old is not reported with a timeout of ten minutes: the minutes field is moved on
  the local clock, to 00:55 before the repeated hour, which is seventy minutes earlier. In
  UTC the same record is reported. And in UTC with a timeout of half a minute, a running
  scheduler whose last heartbeat is 45 seconds old is not reported: the minutes field
  takes whole numbers only. Where the offset of the zone is fixed and the timeout is a
  whole number of minutes, the query reports what the claim says
  (\<open>findStaleSchedulers_fixed_offset\<close>), and a record without a last heartbeat is never
  reported (\<open>findStaleSchedulers_no_heartbeat\<close>).
\<close>

theorem findStaleSchedulers_local_minutes:
  "status (runningSince 1730613240000) = RUNNING \<and>
   last_heartbeat (runningSince 1730613240000) = Some 1730613240000 \<and>
   (1730613900000 - 1730613240000 :: int) > 10 * 60000 \<and>
   findStaleSchedulers newYorkZone 1730613900000 10 [runningSince 1730613240000] = [] \<and>
   findStaleSchedulers utcZone 1730613900000 10 [runningSince 1730613240000]
     = [runningSince 1730613240000] \<and>
   last_heartbeat (runningSince 1730613855000) = Some 1730613855000 \<and>
   (of_int (1730613900000 - 1730613855000) :: rat) > (1 / 2) * 60000 \<and>
   findStaleSchedulers utcZone 1730613900000 (1 / 2) [runningSince 1730613855000] = []"
proof -
  have u: "setMinutes utcZone 1730613900000 (of_int (getMinutes utcZone 1730613900000) - 10)
             = 1730613300000"
    using threshold_fixed_offset [of utcZone 0 1730613900000 10] by (simp add: utcZone_def)
  show ?thesis
    unfolding findStaleSchedulers_def Let_def newYork_threshold utc_half_minute_threshold u
    by (simp add: runningSince_def)
qed



section \<open>Lookups after an update\<close>

lemma findById_map:
  assumes "\<And>item. scheduler_id (f item) = scheduler_id item"
  shows "findById (map (\<lambda>item. if scheduler_id item = sid then f item else item) tbl) k =
           (if k = sid then map_option f (findById tbl k) else findById tbl k)"
  using assms by (induction tbl) (auto simp: findById_def)

lemma scheduler_id_applyUpdates: "scheduler_id (applyUpdates now u item) = scheduler_id item"
  by (simp add: applyUpdates_def)

lemma findById_update:
  "findById (fst (update now sid u tbl)) k =
     (if k = sid then map_option (applyUpdates now u) (findById tbl k) else findById tbl k)"
  unfolding update_def Let_def fst_conv
  by (rule findById_map) (rule scheduler_id_applyUpdates)

lemma update_result:
  "findById tbl sid = Some old \<Longrightarrow>
   update now sid u tbl = (fst (update now sid u tbl), Some (applyUpdates now u old))"
  using findById_update [of now sid u tbl sid] by (simp add: update_def Let_def)

lemma findById_repo_updateHeartbeat:
  "findById (repo_updateHeartbeat now sid tbl) k =
     (if k = sid then map_option (\<lambda>item. item\<lparr>last_heartbeat := Some now, updated_at := now\<rparr>)
                        (findById tbl k)
      else findById tbl k)"
  unfolding repo_updateHeartbeat_def
  by (rule findById_map) simp

section \<open>Status reports\<close>

lemma applyUpdates_statusUpdates:
  "applyUpdates repoNow (statusUpdates now dto) old =
     old\<lparr>updated_at := repoNow,
         service_name := d_service_name dto,
         job_name := d_job_name dto,
         status := d_status dto,
         timestamp := d_timestamp dto,
         execution_time_ms :=
           (case d_execution_time_ms dto of None \<Rightarrow> execution_time_ms old | Some v \<Rightarrow> Some v),
         error_message :=
           (case d_error_message dto of None \<Rightarrow> error_message old | Some v \<Rightarrow> Some v),
         metadata := (case d_metadata dto of None \<Rightarrow> metadata old | Some v \<Rightarrow> Some v),
         last_heartbeat := Some now\<rparr>"
  by (simp add: applyUpdates_def statusUpdates_def setIfDefined_def setOptIfDefined_def)

lemma updateStatus_found:
  assumes "findById (schedulersTable w) (d_scheduler_id dto) = Some old"
  shows "updateStatus N now repoNow newId dto w =
     (let r = applyUpdates repoNow (statusUpdates now dto) old;
          w1 = w\<lparr>schedulersTable :=
                    fst (update repoNow (d_scheduler_id dto) (statusUpdates now dto)
                           (schedulersTable w)),
                  historyTable := createStatusHistory newId r (historyTable w)\<rparr>
      in if d_status dto = FAILED
         then (case sendFailedJobAlert N r of
                 (Inl e, calls) \<Rightarrow> (Inl e, w1\<lparr>outbox := outbox w1 @ calls\<rparr>)
               | (Inr u, calls) \<Rightarrow> (Inr r, w1\<lparr>outbox := outbox w1 @ calls\<rparr>))
         else (Inr r, w1))"
proof -
  obtain tbl where u: "update repoNow (d_scheduler_id dto) (statusUpdates now dto) (schedulersTable w)
      = (tbl, Some (applyUpdates repoNow (statusUpdates now dto) old))"
    using update_result [OF assms] by blast
  show ?thesis
    unfolding updateStatus_def handleFailedJob_def Let_def
    by (simp add: assms u split: prod.splits sum.splits)
qed

lemma updateStatus_not_found:
  "findById (schedulersTable w) (d_scheduler_id dto) = None \<Longrightarrow>
   updateStatus N now repoNow newId dto w = (Inl (notFoundRegisterFirst (d_scheduler_id dto)), w)"
  by (simp add: updateStatus_def)

lemma updateStatus_success:
  assumes "updateStatus N now repoNow newId dto w = (Inr r, w')"
  shows "\<exists>old. findById (schedulersTable w) (d_scheduler_id dto) = Some old \<and>
           r = applyUpdates repoNow (statusUpdates now dto) old \<and>
           schedulersTable w' =
             fst (update repoNow (d_scheduler_id dto) (statusUpdates now dto) (schedulersTable w)) \<and>
           historyTable w' = createStatusHistory newId r (historyTable w)"
proof (cases "findById (schedulersTable w) (d_scheduler_id dto)")
  case None
  with assms show ?thesis by (simp add: updateStatus_not_found)
next
  case (Some old)
  from assms show ?thesis
    unfolding updateStatus_found [OF Some] Let_def
    by (auto simp: Some split: if_splits prod.splits sum.splits)
qed


section \<open>Facts about the sample inputs\<close>


lemma sample_found [simp]:
  "findById (schedulersTable sampleWorld) ''svc-a-eod'' = Some sampleScheduler"
  by (simp add: findById_def sampleWorld_def sampleScheduler_def)

lemma updateStatus_stored:
  assumes "updateStatus N now repoNow newId dto w = (Inr r, w')"
  shows "findById (schedulersTable w') (d_scheduler_id dto) = Some r"
proof -
  from updateStatus_success [OF assms] obtain old where
    "findById (schedulersTable w) (d_scheduler_id dto) = Some old"
    "r = applyUpdates repoNow (statusUpdates now dto) old"
    "schedulersTable w' =
       fst (update repoNow (d_scheduler_id dto) (statusUpdates now dto) (schedulersTable w))"
    by blast
  then show ?thesis by (simp add: findById_update)
qed

section \<open>What a status report stores\<close>

lemma running_report:
  "updateStatus sampleSlack 5000 5001 ''id-2'' runningDto sampleWorld =
     (Inr (sampleScheduler\<lparr>status := RUNNING, timestamp := 2000, last_heartbeat := Some 5000,
                           updated_at := 5001\<rparr>),
      snd (updateStatus sampleSlack 5000 5001 ''id-2'' runningDto sampleWorld))"
proof -
  have f: "findById (schedulersTable sampleWorld) (d_scheduler_id runningDto) = Some sampleScheduler"
    by (simp add: runningDto_def)
  have "fst (updateStatus sampleSlack 5000 5001 ''id-2'' runningDto sampleWorld) =
          Inr (sampleScheduler\<lparr>status := RUNNING, timestamp := 2000, last_heartbeat := Some 5000,
                           updated_at := 5001\<rparr>)"
    unfolding updateStatus_found [OF f] Let_def applyUpdates_statusUpdates
    by (simp add: runningDto_def sampleScheduler_def)
  then show ?thesis by (simp add: prod_eq_iff)
qed

text \<open>
  Claim C2, as the code has it. A successful \<^verbatim>\<open>updateStatus\<close> leaves, under the
  reported id, the record it returns: the record found before the call with
  \<^verbatim>\<open>service_name\<close>, \<^verbatim>\<open>job_name\<close>, \<^verbatim>\<open>status\<close> and \<^verbatim>\<open>timestamp\<close> set to
  the values of the request, \<^verbatim>\<open>last_heartbeat\<close> set to the time of the call and
  \<^verbatim>\<open>updated_at\<close> to the time of the write. Each of \<^verbatim>\<open>execution_time_ms\<close>,
  \<^verbatim>\<open>error_message\<close> and \<^verbatim>\<open>metadata\<close> is set to the value of the request when
  the request has one and keeps its stored value when the request leaves it out: the
  repository skips the entries of the update whose value is \<^verbatim>\<open>undefined\<close>.
\<close>

theorem updateStatus_overwrites:
  assumes "updateStatus N now repoNow newId dto w = (Inr r, w')"
  shows "\<exists>old. findById (schedulersTable w) (d_scheduler_id dto) = Some old \<and>
           findById (schedulersTable w') (d_scheduler_id dto) = Some r \<and>
           r = old\<lparr>updated_at := repoNow,
                   service_name := d_service_name dto,
                   job_name := d_job_name dto,
                   status := d_status dto,
                   timestamp := d_timestamp dto,
                   execution_time_ms :=
                     (case d_execution_time_ms dto of
                        None \<Rightarrow> execution_time_ms old | Some v \<Rightarrow> Some v),
                   error_message :=
                     (case d_error_message dto of
                        None \<Rightarrow> error_message old | Some v \<Rightarrow> Some v),
                   metadata :=
                     (case d_metadata dto of None \<Rightarrow> metadata old | Some v \<Rightarrow> Some v),
                   last_heartbeat := Some now\<rparr>"
proof -
  from updateStatus_success [OF assms] obtain old where
    old: "findById (schedulersTable w) (d_scheduler_id dto) = Some old" and
    r: "r = applyUpdates repoNow (statusUpdates now dto) old" and
    tbl: "schedulersTable w' =
            fst (update repoNow (d_scheduler_id dto) (statusUpdates now dto) (schedulersTable w))"
    by blast
  have "findById (schedulersTable w') (d_scheduler_id dto) = Some r"
    by (simp add: tbl findById_update old r)
  with old r show ?thesis
    by (simp add: applyUpdates_statusUpdates)
qed

text \<open>The theorem at a report of \<^verbatim>\<open>running\<close> for the sample scheduler.\<close>

theorem updateStatus_overwrites_witness:
  "\<exists>old. findById (schedulersTable sampleWorld) (d_scheduler_id runningDto) = Some old \<and>
     findById (schedulersTable (snd (updateStatus sampleSlack 5000 5001 ''id-2'' runningDto sampleWorld)))
       (d_scheduler_id runningDto)
       = Some (sampleScheduler\<lparr>status := RUNNING, timestamp := 2000, last_heartbeat := Some 5000,
                               updated_at := 5001\<rparr>) \<and>
     sampleScheduler\<lparr>status := RUNNING, timestamp := 2000, last_heartbeat := Some 5000,
                     updated_at := 5001\<rparr>
       = old\<lparr>updated_at := 5001,
               service_name := d_service_name runningDto,
               job_name := d_job_name runningDto,
               status := d_status runningDto,
               timestamp := d_timestamp runningDto,
               execution_time_ms :=
                 (case d_execution_time_ms runningDto of
                    None \<Rightarrow> execution_time_ms old | Some v \<Rightarrow> Some v),
               error_message :=
                 (case d_error_message runningDto of
                    None \<Rightarrow> error_message old | Some v \<Rightarrow> Some v),
               metadata :=
                 (case d_metadata runningDto of None \<Rightarrow> metadata old | Some v \<Rightarrow> Some v),
               last_heartbeat := Some 5000\<rparr>"
  by (rule updateStatus_overwrites [OF running_report])

text \<open>
  The claim as stated fails there: the report carries no execution time and no error
  message, and the stored record still has the execution time 15000 and the error message
  of the earlier failure.
\<close>

theorem updateStatus_keeps_absent_optionals:
  "fst (updateStatus sampleSlack 5000 5001 ''id-2'' runningDto sampleWorld) =
     Inr (sampleScheduler\<lparr>status := RUNNING, timestamp := 2000, last_heartbeat := Some 5000,
                          updated_at := 5001\<rparr>) \<and>
   findById (schedulersTable (snd (updateStatus sampleSlack 5000 5001 ''id-2'' runningDto sampleWorld)))
     ''svc-a-eod''
     = Some (sampleScheduler\<lparr>status := RUNNING, timestamp := 2000, last_heartbeat := Some 5000,
                             updated_at := 5001\<rparr>) \<and>
   d_execution_time_ms runningDto = None \<and>
   execution_time_ms (sampleScheduler\<lparr>status := RUNNING, timestamp := 2000,
                        last_heartbeat := Some 5000, updated_at := 5001\<rparr>) = Some 15000 \<and>
   d_error_message runningDto = None \<and>
   error_message (sampleScheduler\<lparr>status := RUNNING, timestamp := 2000,
                    last_heartbeat := Some 5000, updated_at := 5001\<rparr>) = Some ''timeout''"
proof -
  note rep = running_report
  have "fst (updateStatus sampleSlack 5000 5001 ''id-2'' runningDto sampleWorld) =
     Inr (sampleScheduler\<lparr>status := RUNNING, timestamp := 2000, last_heartbeat := Some 5000,
                          updated_at := 5001\<rparr>)"
    using rep by (metis fst_conv)
  moreover have "findById
      (schedulersTable (snd (updateStatus sampleSlack 5000 5001 ''id-2'' runningDto sampleWorld)))
      ''svc-a-eod''
     = Some (sampleScheduler\<lparr>status := RUNNING, timestamp := 2000, last_heartbeat := Some 5000,
                             updated_at := 5001\<rparr>)"
    using updateStatus_stored [OF rep] by (simp add: runningDto_def)
  ultimately show ?thesis
    by (simp add: runningDto_def sampleScheduler_def)
qed

section \<open>History entries\<close>

lemma createStatusHistory_eq:
  "createStatusHistory newId r hist =
     putItem \<lparr>h_id = newId, h_scheduler_id = scheduler_id r, h_status = status r,
              h_timestamp = timestamp r, h_execution_time_ms = execution_time_ms r,
              h_error_message = error_message r, h_metadata = metadata r\<rparr> hist"
  by (simp add: createStatusHistory_def history_create_def Let_def)

lemma putItem_fresh_key:
  "list_all (\<lambda>e. \<not> sameKey e item) hist \<Longrightarrow> putItem item hist = hist @ [item]"
  by (simp add: putItem_def list_all_iff)

lemma registerScheduler_history:
  "historyTable (snd (registerScheduler now repoNow dto w)) = historyTable w"
  by (simp add: registerScheduler_def create_def Let_def split: option.splits prod.splits)

lemma updateHeartbeat_history:
  "historyTable (snd (updateHeartbeat repoNow sid w)) = historyTable w"
  by (simp add: updateHeartbeat_def split: option.splits)

lemma retried_report:
  "updateStatus sampleSlack 5000 5001 ''id-2'' retriedDto sampleWorld =
     (Inr (sampleScheduler\<lparr>status := COMPLETED, last_heartbeat := Some 5000, updated_at := 5001\<rparr>),
      snd (updateStatus sampleSlack 5000 5001 ''id-2'' retriedDto sampleWorld))"
proof -
  have f: "findById (schedulersTable sampleWorld) (d_scheduler_id retriedDto) = Some sampleScheduler"
    by (simp add: retriedDto_def)
  have "fst (updateStatus sampleSlack 5000 5001 ''id-2'' retriedDto sampleWorld) =
          Inr (sampleScheduler\<lparr>status := COMPLETED, last_heartbeat := Some 5000,
                               updated_at := 5001\<rparr>)"
    unfolding updateStatus_found [OF f] Let_def applyUpdates_statusUpdates
    by (simp add: retriedDto_def sampleScheduler_def)
  then show ?thesis by (simp add: prod_eq_iff)
qed

text \<open>
  Claim C3, as the code has it. A successful \<^verbatim>\<open>updateStatus\<close> puts one entry into the
  history table: the entry with the generated id whose scheduler id, status, timestamp,
  execution time, error message and metadata are those of the record just written. The
  table is keyed by scheduler id and timestamp, so the entry is appended, and the history
  grows by one, when no stored entry has that scheduler id and timestamp; otherwise it
  takes the place of the stored entry with that key and the history does not grow.
  Registration and heartbeat leave the history table as it is (the reads return no
  state).
\<close>

theorem updateStatus_history_entry:
  assumes "updateStatus N now repoNow newId dto w = (Inr r, w')"
  shows "(let entry = \<lparr>h_id = newId, h_scheduler_id = scheduler_id r, h_status = status r,
                        h_timestamp = timestamp r, h_execution_time_ms = execution_time_ms r,
                        h_error_message = error_message r, h_metadata = metadata r\<rparr>
          in historyTable w' = filter (\<lambda>e. \<not> sameKey e entry) (historyTable w) @ [entry] \<and>
             (if list_all (\<lambda>e. \<not> sameKey e entry) (historyTable w)
              then historyTable w' = historyTable w @ [entry]
              else length (historyTable w') \<le> length (historyTable w))) \<and>
         historyTable (snd (registerScheduler t1 t2 rdto w0)) = historyTable w0 \<and>
         historyTable (snd (updateHeartbeat t3 sid w0)) = historyTable w0"
proof -
  from updateStatus_success [OF assms]
  have h: "historyTable w' = createStatusHistory newId r (historyTable w)" by blast
  have len: "\<not> list_all P xs \<Longrightarrow> length (filter P xs) < length xs" for P :: "StatusHistory \<Rightarrow> bool" and xs
    by (induction xs) (auto simp: less_Suc_eq_le)
  show ?thesis
    unfolding h createStatusHistory_eq Let_def
    using len
    by (auto simp: putItem_def registerScheduler_history updateHeartbeat_history list_all_iff
             Suc_le_eq)
qed

text \<open>
  The theorem at a second report for the sample scheduler that carries the timestamp of
  the first.
\<close>

theorem updateStatus_history_entry_witness:
  "(let entry = \<lparr>h_id = ''id-2'',
        h_scheduler_id = scheduler_id (sampleScheduler\<lparr>status := COMPLETED,
                            last_heartbeat := Some 5000, updated_at := 5001\<rparr>),
        h_status = status (sampleScheduler\<lparr>status := COMPLETED,
                            last_heartbeat := Some 5000, updated_at := 5001\<rparr>),
        h_timestamp = timestamp (sampleScheduler\<lparr>status := COMPLETED,
                            last_heartbeat := Some 5000, updated_at := 5001\<rparr>),
        h_execution_time_ms = execution_time_ms (sampleScheduler\<lparr>status := COMPLETED,
                            last_heartbeat := Some 5000, updated_at := 5001\<rparr>),
        h_error_message = error_message (sampleScheduler\<lparr>status := COMPLETED,
                            last_heartbeat := Some 5000, updated_at := 5001\<rparr>),
        h_metadata = metadata (sampleScheduler\<lparr>status := COMPLETED,
                            last_heartbeat := Some 5000, updated_at := 5001\<rparr>)\<rparr>
    in historyTable (snd (updateStatus sampleSlack 5000 5001 ''id-2'' retriedDto sampleWorld))
         = filter (\<lambda>e. \<not> sameKey e entry) (historyTable sampleWorld) @ [entry] \<and>
       (if list_all (\<lambda>e. \<not> sameKey e entry) (historyTable sampleWorld)
        then historyTable (snd (updateStatus sampleSlack 5000 5001 ''id-2'' retriedDto sampleWorld))
               = historyTable sampleWorld @ [entry]
        else length (historyTable
                       (snd (updateStatus sampleSlack 5000 5001 ''id-2'' retriedDto sampleWorld)))
               \<le> length (historyTable sampleWorld))) \<and>
   historyTable (snd (registerScheduler 8000 8001 registerDto sampleWorld)) = historyTable sampleWorld \<and>
   historyTable (snd (updateHeartbeat 7000 ''svc-a-eod'' sampleWorld)) = historyTable sampleWorld"
  by (rule updateStatus_history_entry [OF retried_report])

text \<open>
  The claim as stated fails there: the call succeeds and the history holds one entry
  before it and one entry after it, the new one in place of the old.
\<close>

theorem updateStatus_same_timestamp_replaces:
  "fst (updateStatus sampleSlack 5000 5001 ''id-2'' retriedDto sampleWorld) =
     Inr (sampleScheduler\<lparr>status := COMPLETED, last_heartbeat := Some 5000, updated_at := 5001\<rparr>) \<and>
   historyTable sampleWorld = [sampleEntry] \<and>
   historyTable (snd (updateStatus sampleSlack 5000 5001 ''id-2'' retriedDto sampleWorld)) =
     [sampleEntry\<lparr>h_id := ''id-2'', h_status := COMPLETED\<rparr>]"
proof -
  note rep = retried_report
  have "fst (updateStatus sampleSlack 5000 5001 ''id-2'' retriedDto sampleWorld) =
     Inr (sampleScheduler\<lparr>status := COMPLETED, last_heartbeat := Some 5000, updated_at := 5001\<rparr>)"
    using rep by (metis fst_conv)
  moreover from updateStatus_success [OF rep]
  have "historyTable (snd (updateStatus sampleSlack 5000 5001 ''id-2'' retriedDto sampleWorld)) =
          createStatusHistory ''id-2''
            (sampleScheduler\<lparr>status := COMPLETED, last_heartbeat := Some 5000, updated_at := 5001\<rparr>)
            (historyTable sampleWorld)"
    by blast
  then have "historyTable (snd (updateStatus sampleSlack 5000 5001 ''id-2'' retriedDto sampleWorld)) =
     [sampleEntry\<lparr>h_id := ''id-2'', h_status := COMPLETED\<rparr>]"
    by (simp add: createStatusHistory_eq putItem_def sameKey_def sampleWorld_def sampleEntry_def
          sampleScheduler_def)
  ultimately show ?thesis
    by (simp add: sampleWorld_def)
qed

section \<open>The alert of a failed job\<close>

lemma sendFailedJobAlert_cases:
  "sendFailedJobAlert N r =
     (if enabled N \<and> chat N (failedJobCall N r) = None then Inl DeliveryFailure else Inr (),
      if enabled N then [failedJobCall N r] else [])"
  by (simp add: sendFailedJobAlert_def Let_def split: option.splits)

lemma failed_report:
  "findById (schedulersTable sampleWorld) (d_scheduler_id failedDto) = Some sampleScheduler \<and>
   d_status failedDto = FAILED"
  by (simp add: failedDto_def)

text \<open>
  Claim C8, as the code has it. For a report of \<^verbatim>\<open>failed\<close> on a registered
  scheduler, \<^verbatim>\<open>updateStatus\<close> first writes the record and its history entry and then
  sends the alert. When notifications are enabled and the Slack client rejects the alert,
  the notification service throws the error again and \<^verbatim>\<open>updateStatus\<close> fails with
  it, the record and the history entry staying written; when the alert is accepted, or
  notifications are disabled, the call returns the updated scheduler. The alert is
  attempted exactly when notifications are enabled.
\<close>

theorem updateStatus_failed_alert:
  assumes "findById (schedulersTable w) (d_scheduler_id dto) = Some old"
      and "d_status dto = FAILED"
  shows "(let r = applyUpdates repoNow (statusUpdates now dto) old;
              res = updateStatus N now repoNow newId dto w
          in fst res = (if enabled N \<and> chat N (failedJobCall N r) = None
                        then Inl DeliveryFailure else Inr r) \<and>
             findById (schedulersTable (snd res)) (d_scheduler_id dto) = Some r \<and>
             historyTable (snd res) = createStatusHistory newId r (historyTable w) \<and>
             outbox (snd res) = outbox w @ (if enabled N then [failedJobCall N r] else []))"
  unfolding updateStatus_found [OF assms(1)] Let_def sendFailedJobAlert_cases
  by (simp add: assms findById_update)

text \<open>The theorem at a failed report while the Slack client rejects every call.\<close>

theorem updateStatus_failed_alert_witness:
  "(let r = applyUpdates 5001 (statusUpdates 5000 failedDto) sampleScheduler;
        res = updateStatus failingSlack 5000 5001 ''id-2'' failedDto sampleWorld
    in fst res = (if enabled failingSlack \<and> chat failingSlack (failedJobCall failingSlack r) = None
                  then Inl DeliveryFailure else Inr r) \<and>
       findById (schedulersTable (snd res)) (d_scheduler_id failedDto) = Some r \<and>
       historyTable (snd res) = createStatusHistory ''id-2'' r (historyTable sampleWorld) \<and>
       outbox (snd res) = outbox sampleWorld @
         (if enabled failingSlack then [failedJobCall failingSlack r] else []))"
  using failed_report
  by (intro updateStatus_failed_alert) simp_all

text \<open>
  The claim as stated fails there: the caller of \<^verbatim>\<open>updateStatus\<close> gets the delivery
  failure, not the updated scheduler.
\<close>

theorem updateStatus_propagates_delivery_failure:
  "fst (updateStatus failingSlack 5000 5001 ''id-2'' failedDto sampleWorld) = Inl DeliveryFailure"
proof -
  have f: "findById (schedulersTable sampleWorld) (d_scheduler_id failedDto) = Some sampleScheduler"
    using failed_report by simp
  show ?thesis
    unfolding updateStatus_found [OF f] Let_def sendFailedJobAlert_cases
    by (simp add: failedDto_def failingSlack_def sampleSlack_def)
qed

section \<open>Registration\<close>

lemma applyUpdates_registerUpdates:
  "applyUpdates repoNow (registerUpdates dto) old =
     old\<lparr>updated_at := repoNow,
         service_name := r_service_name dto,
         job_name := r_job_name dto,
         owner_email := (case r_owner_email dto of None \<Rightarrow> owner_email old | Some v \<Rightarrow> Some v),
         alert_user_id :=
           (case r_alert_user_id dto of None \<Rightarrow> alert_user_id old | Some v \<Rightarrow> Some v)\<rparr>"
  by (simp add: applyUpdates_def registerUpdates_def setIfDefined_def setOptIfDefined_def)

lemma registerScheduler_found:
  assumes "findById (schedulersTable w) (r_scheduler_id dto) = Some old"
  shows "registerScheduler now repoNow dto w =
           (Inr (applyUpdates repoNow (registerUpdates dto) old),
            w\<lparr>schedulersTable :=
                 fst (update repoNow (r_scheduler_id dto) (registerUpdates dto) (schedulersTable w))\<rparr>)"
proof -
  obtain tbl where u: "update repoNow (r_scheduler_id dto) (registerUpdates dto) (schedulersTable w)
      = (tbl, Some (applyUpdates repoNow (registerUpdates dto) old))"
    using update_result [OF assms] by blast
  show ?thesis
    unfolding registerScheduler_def by (simp add: assms u)
qed

text \<open>
  Claim C5, as the code has it. \<^verbatim>\<open>registerScheduler\<close> never fails. When a record with
  the id exists, the call returns and stores that record with \<^verbatim>\<open>service_name\<close> and
  \<^verbatim>\<open>job_name\<close> set to the values of the request, \<^verbatim>\<open>owner_email\<close> and
  \<^verbatim>\<open>alert_user_id\<close> set to the values of the request where it has them, and
  \<^verbatim>\<open>updated_at\<close> set to the time of the write; every other field of the record, every
  other record and the history are as before. When no record with the id exists, the call
  appends a record with status \<^verbatim>\<open>pending\<close>, \<^verbatim>\<open>timestamp\<close> the time of the call and
  \<^verbatim>\<open>created_at\<close> and \<^verbatim>\<open>updated_at\<close> the time of the write.
\<close>

theorem registerScheduler_effect:
  "(case findById (schedulersTable w) (r_scheduler_id dto) of
      Some old \<Rightarrow>
        (let r = old\<lparr>updated_at := repoNow,
                      service_name := r_service_name dto,
                      job_name := r_job_name dto,
                      owner_email :=
                        (case r_owner_email dto of None \<Rightarrow> owner_email old | Some v \<Rightarrow> Some v),
                      alert_user_id :=
                        (case r_alert_user_id dto of
                           None \<Rightarrow> alert_user_id old | Some v \<Rightarrow> Some v)\<rparr>;
             res = registerScheduler now repoNow dto w
         in fst res = Inr r \<and>
            (\<forall>k. findById (schedulersTable (snd res)) k =
                   (if k = r_scheduler_id dto then Some r else findById (schedulersTable w) k)) \<and>
            historyTable (snd res) = historyTable w \<and> outbox (snd res) = outbox w)
    | None \<Rightarrow>
        (let s = \<lparr>scheduler_id = r_scheduler_id dto,
                  service_name = r_service_name dto,
                  job_name = r_job_name dto,
                  status = PENDING,
                  timestamp = now,
                  execution_time_ms = None,
                  error_message = None,
                  metadata = None,
                  last_heartbeat = None,
                  created_at = repoNow,
                  updated_at = repoNow,
                  owner_email = r_owner_email dto,
                  alert_user_id = r_alert_user_id dto\<rparr>
         in registerScheduler now repoNow dto w =
              (Inr s, w\<lparr>schedulersTable := schedulersTable w @ [s]\<rparr>)))"
proof (cases "findById (schedulersTable w) (r_scheduler_id dto)")
  case None
  then show ?thesis
    by (simp add: registerScheduler_def create_def Let_def)
next
  case (Some old)
  show ?thesis
    unfolding registerScheduler_found [OF Some] Let_def
    by (simp add: Some findById_update applyUpdates_registerUpdates)
qed

text \<open>
  The claim as stated, that only the four descriptive fields are updated, fails at a
  second registration of the sample scheduler: \<^verbatim>\<open>updated_at\<close> moves from 1000 to the
  time of the write.
\<close>

theorem registerScheduler_bumps_updated_at:
  "fst (registerScheduler 8000 8001 registerDto sampleWorld) =
     Inr (sampleScheduler\<lparr>service_name := ''Service A v2'', job_name := ''EOD Run'',
                          alert_user_id := Some ''U999'', updated_at := 8001\<rparr>) \<and>
   updated_at sampleScheduler = 1000"
proof -
  have f: "findById (schedulersTable sampleWorld) (r_scheduler_id registerDto) = Some sampleScheduler"
    by (simp add: registerDto_def)
  show ?thesis
    unfolding registerScheduler_found [OF f] applyUpdates_registerUpdates
    by (simp add: registerDto_def sampleScheduler_def)
qed

section \<open>Heartbeats and unknown ids\<close>

text \<open>
  Claim C9. For an id that has a record, \<^verbatim>\<open>updateHeartbeat\<close> succeeds and the record
  stored under the id afterwards is the record before the call with \<^verbatim>\<open>last_heartbeat\<close>
  and \<^verbatim>\<open>updated_at\<close> set to the time of the write: the status, the error message
  and every other field are unchanged, as are the other records, the history table and
  the messages sent. For an id without a record the call fails with \<open>NotFound\<close> and
  changes nothing.
\<close>

theorem updateHeartbeat_frame:
  "(case findById (schedulersTable w) sid of
      None \<Rightarrow> updateHeartbeat now sid w = (Inl (notFoundRegisterFirst sid), w)
    | Some s \<Rightarrow>
        (\<exists>w'. updateHeartbeat now sid w = (Inr (), w') \<and>
              (\<forall>k. findById (schedulersTable w') k =
                     (if k = sid then Some (s\<lparr>last_heartbeat := Some now, updated_at := now\<rparr>)
                      else findById (schedulersTable w) k)) \<and>
              historyTable w' = historyTable w \<and> outbox w' = outbox w))"
  by (cases "findById (schedulersTable w) sid")
     (simp_all add: updateHeartbeat_def findById_repo_updateHeartbeat)

lemma unknown_id_not_found:
  assumes "findById (schedulersTable w) sid = None"
  shows "fst (updateStatus N now repoNow newId (dto\<lparr>d_scheduler_id := sid\<rparr>) w)
           = Inl (notFoundRegisterFirst sid)"
    and "fst (updateHeartbeat now sid w) = Inl (notFoundRegisterFirst sid)"
    and "getScheduler sid w = Inl (NotFound (''Scheduler '' @ sid @ '' not found''))"
  using assms by (simp_all add: updateStatus_def updateHeartbeat_def getScheduler_def)

text \<open>
  Claim C4 at an id without a record. \<^verbatim>\<open>updateStatus\<close>, \<^verbatim>\<open>updateHeartbeat\<close> and
  \<^verbatim>\<open>getScheduler\<close> fail with \<open>NotFound\<close> there (\<open>unknown_id_not_found\<close>), but
  \<^verbatim>\<open>getSchedulerHistory\<close> does not look the scheduler up: it returns the result of
  the history query, here the empty list.
\<close>

theorem getSchedulerHistory_unknown_id:
  "findById (schedulersTable emptyWorld) ''unknown-id'' = None \<and>
   getSchedulerHistory ''unknown-id'' None emptyWorld = Inr []"
  by (simp add: getSchedulerHistory_def findBySchedulerId_def findById_def emptyWorld_def)

section \<open>Window close\<close>

lemma updateStatusTable_cases:
  "updateStatusTable N ts schedulers now =
     (if enabled N \<and> chat N (ChatUpdate (channelId N) ts (buildStatusTableBlocks N schedulers now)
                                ''EOD Process Status Update'') = None
      then Inl DeliveryFailure else Inr (),
      if enabled N
      then [ChatUpdate (channelId N) ts (buildStatusTableBlocks N schedulers now)
              ''EOD Process Status Update'']
      else [])"
  by (simp add: updateStatusTable_def Let_def split: option.splits)

lemma sendAllClearSummary_cases:
  "sendAllClearSummary N schedulers now =
     (if enabled N \<and> chat N (allClearCall N schedulers now) = None
      then Inl DeliveryFailure else Inr (),
      if enabled N then [allClearCall N schedulers now] else [])"
  by (simp add: sendAllClearSummary_def Let_def split: option.splits)

lemma allClear_iff: "allClear schedulers \<longleftrightarrow> schedulers \<noteq> [] \<and> list_all isCompleted schedulers"
  by (auto simp: allClear_def Let_def)

lemma sendFinalStatusSummary_edit_fails:
  assumes "enabled N" and "currentMessageTs wk = Some ts" and "ts \<noteq> []"
      and "chat N (ChatUpdate (channelId N) ts (buildStatusTableBlocks N schedulers now)
                     ''EOD Process Status Update'') = None"
  shows "sendFinalStatusSummary N (Inr schedulers) now wk =
           (wk, [ChatUpdate (channelId N) ts (buildStatusTableBlocks N schedulers now)
                   ''EOD Process Status Update''])"
  using assms
  by (simp add: sendFinalStatusSummary_def updateStatusTable_cases truthyStr_def)

lemma sendFinalStatusSummary_fetch_fails:
  "sendFinalStatusSummary N (Inl e) now wk = (wk, [])"
  by (simp add: sendFinalStatusSummary_def)

lemma sendFinalStatusSummary_no_failure:
  assumes "enabled N"
      and "\<not> (truthyStr (currentMessageTs wk) \<and>
               chat N (ChatUpdate (channelId N) (the (currentMessageTs wk))
                         (buildStatusTableBlocks N schedulers now)
                         ''EOD Process Status Update'') = None)"
      and "\<not> (allClear schedulers \<and> chat N (allClearCall N schedulers now) = None)"
  shows "currentMessageTs (fst (sendFinalStatusSummary N (Inr schedulers) now wk)) = None"
  using assms
  by (auto simp: sendFinalStatusSummary_def updateStatusTable_cases sendAllClearSummary_cases
           split: if_splits)

lemma worker_updateStatusTable_edit_fails:
  assumes "enabled N" and "startHour wk < currentHour" and "currentHour \<le> endHour wk"
      and "currentMessageTs wk = Some ts" and "ts \<noteq> []"
      and "chat N (ChatUpdate (channelId N) ts (buildStatusTableBlocks N schedulers now)
                     ''EOD Process Status Update'') = None"
  shows "currentMessageTs (fst (worker_updateStatusTable N (Inr schedulers) now currentHour wk))
           = None"
  using assms
  by (simp add: worker_updateStatusTable_def updateStatusTable_cases truthyStr_def)

lemma checkAllClear_outbox:
  "outbox (snd (checkAllClear N now w)) =
     outbox w @ (if allClear (schedulersTable w) \<and> enabled N
                 then [allClearCall N (schedulersTable w) now] else [])"
  by (simp add: checkAllClear_def findAll_def Let_def sendAllClearSummary_cases)

lemma sample_edit_fails:
  "enabled editFailingSlack \<and> currentMessageTs sampleWorker = Some ''1700000000.000100'' \<and>
   chat editFailingSlack (ChatUpdate c t b x) = None"
  by (simp add: editFailingSlack_def sampleSlack_def sampleWorker_def)

text \<open>
  Claim C6 at two executions of the window-close trigger that hold a handle: one in which
  the Slack client rejects the final edit, one in which fetching the records fails. The
  reset of the handle is the last statement of the \<^verbatim>\<open>try\<close> block, so the error skips
  it and the worker still holds the handle afterwards. (When nothing fails the handle is
  cleared, \<open>sendFinalStatusSummary_no_failure\<close>; the hourly refresh drops the handle when
  its edit fails, \<open>worker_updateStatusTable_edit_fails\<close>.)
\<close>

theorem sendFinalStatusSummary_keeps_handle:
  "currentMessageTs (fst (sendFinalStatusSummary editFailingSlack (Inr [completedScheduler]) 9000
                            sampleWorker)) = Some ''1700000000.000100'' \<and>
   currentMessageTs (fst (sendFinalStatusSummary sampleSlack (Inl StoreFailure) 9000 sampleWorker))
     = Some ''1700000000.000100''"
proof -
  have "sendFinalStatusSummary editFailingSlack (Inr [completedScheduler]) 9000 sampleWorker =
          (sampleWorker,
           [ChatUpdate (channelId editFailingSlack) ''1700000000.000100''
              (buildStatusTableBlocks editFailingSlack [completedScheduler] 9000)
              ''EOD Process Status Update''])"
    by (rule sendFinalStatusSummary_edit_fails) (simp_all add: sample_edit_fails)
  then show ?thesis
    by (simp add: sendFinalStatusSummary_fetch_fails sampleWorker_def)
qed

text \<open>
  Claim C7, as the code has it. At window close with the records fetched, the all-clear
  summary is posted if and only if notifications are enabled, the final edit of the held
  message did not fail (no handle held, or the Slack client accepted the edit), the list
  is not empty and every scheduler in it is completed. In particular it is not posted for
  the empty list; and nothing is posted when fetching the records fails.
\<close>

theorem sendFinalStatusSummary_all_clear_iff:
  "(allClearCall N schedulers now \<in> set (snd (sendFinalStatusSummary N (Inr schedulers) now wk))
      \<longleftrightarrow>
    enabled N \<and>
    \<not> (truthyStr (currentMessageTs wk) \<and>
        chat N (ChatUpdate (channelId N) (the (currentMessageTs wk))
                  (buildStatusTableBlocks N schedulers now) ''EOD Process Status Update'') = None) \<and>
    schedulers \<noteq> [] \<and> list_all isCompleted schedulers) \<and>
   snd (sendFinalStatusSummary N (Inl e) now wk) = []"
  by (auto simp: sendFinalStatusSummary_def updateStatusTable_cases sendAllClearSummary_cases
        allClear_iff allClearCall_def split: if_splits)

text \<open>
  The claim as stated fails when the final edit is rejected: the list holds one scheduler,
  it is completed, and the error of the edit ends the trigger before the all-clear
  summary.
\<close>

theorem sendFinalStatusSummary_skips_all_clear:
  "[completedScheduler] \<noteq> [] \<and> list_all isCompleted [completedScheduler] \<and>
   allClearCall editFailingSlack [completedScheduler] 9000
     \<notin> set (snd (sendFinalStatusSummary editFailingSlack (Inr [completedScheduler]) 9000
                    sampleWorker))"
proof -
  have "sendFinalStatusSummary editFailingSlack (Inr [completedScheduler]) 9000 sampleWorker =
          (sampleWorker,
           [ChatUpdate (channelId editFailingSlack) ''1700000000.000100''
              (buildStatusTableBlocks editFailingSlack [completedScheduler] 9000)
              ''EOD Process Status Update''])"
    by (rule sendFinalStatusSummary_edit_fails) (simp_all add: sample_edit_fails)
  then show ?thesis
    by (simp add: allClearCall_def isCompleted_def completedScheduler_def)
qed

section \<open>The status table\<close>

lemma isExecutionTimeBlock_executionTimeBlock [simp]:
  "isExecutionTimeBlock (executionTimeBlock N ms)"
  by (simp add: isExecutionTimeBlock_def executionTimeBlock_def)

lemma isExecutionTimeBlock_others [simp]:
  "\<not> isExecutionTimeBlock (Header h)"
  "\<not> isExecutionTimeBlock Divider"
  "\<not> isExecutionTimeBlock (SectionFields fs)"
  "\<not> isExecutionTimeBlock (SectionText t)"
  by (simp_all add: isExecutionTimeBlock_def)

lemma filter_schedulerBlocks:
  "filter isExecutionTimeBlock (schedulerBlocks N s) =
     (if truthyNum (execution_time_ms s) then [executionTimeBlock N (the (execution_time_ms s))]
      else [])"
  by (simp add: schedulerBlocks_def)

lemma legend_not_annotation [simp]: "\<not> isExecutionTimeBlock (Context [legend])"
  by (simp add: isExecutionTimeBlock_def legend_def)

lemma filter_concat_schedulerBlocks:
  "filter isExecutionTimeBlock (concat (map (schedulerBlocks N) schedulers)) =
     map (\<lambda>s. executionTimeBlock N (the (execution_time_ms s)))
       (filter (\<lambda>s. truthyNum (execution_time_ms s)) schedulers)"
  by (induction schedulers) (simp_all add: filter_schedulerBlocks)

lemma annotations_of_table:
  "filter isExecutionTimeBlock (buildStatusTableBlocks N schedulers ts) =
     map (\<lambda>s. executionTimeBlock N (the (execution_time_ms s)))
       (filter (\<lambda>s. truthyNum (execution_time_ms s)) schedulers)"
  by (simp add: buildStatusTableBlocks_def Let_def filter_concat_schedulerBlocks)

text \<open>
  Claim C10 at a scheduler whose execution time is present with the value 0: the rendered
  status table has no execution-time annotation. The condition
  \<^verbatim>\<open>if (scheduler.execution_time_ms)\<close> is false of 0, so the table annotates exactly
  the schedulers with a non-zero execution time (\<open>annotations_of_table\<close>).
\<close>

theorem buildStatusTableBlocks_zero_execution_time:
  "execution_time_ms completedScheduler = Some 0 \<and>
   filter isExecutionTimeBlock (buildStatusTableBlocks N [completedScheduler] ts) = []"
  by (simp add: annotations_of_table truthyNum_def completedScheduler_def)


end
